theory Spec2Isabelle
  imports Main "HOL-Library.Sublist"
begin

section \<open>Python values, exceptions and the result monad\<close>

text \<open>
  The storage router of \<^verbatim>\<open>CloudUtil/cloud_manager.py\<close> and its two adapters
  (\<^verbatim>\<open>aws_s3_manager.py\<close>, \<^verbatim>\<open>render_file_manager.py\<close>) are embedded as HOL functions.
  Python values that flow through the router are values of \<open>pyval\<close>: the JSON-shaped
  values, and \<open>PObject t\<close> for any other object, of type name \<open>t\<close>. A float is
  carried by its \<^verbatim>\<open>repr\<close>. Text (\<^verbatim>\<open>str\<close>) is a \<open>string\<close>; its UTF-8 encoding is
  left implicit, so encoding a \<^verbatim>\<open>str\<close> never fails in this model.
\<close>

datatype pyval =
    PNone
  | PBool bool
  | PInt int
  | PFloat string
  | PStr string
  | PList "pyval list"
  | PDict "(pyval \<times> pyval) list"
  | PObject string

fun is_str :: "pyval \<Rightarrow> bool" where
  "is_str (PStr s) = True"
| "is_str v = False"

fun type_name :: "pyval \<Rightarrow> string" where
  "type_name PNone = ''NoneType''"
| "type_name (PBool b) = ''bool''"
| "type_name (PInt i) = ''int''"
| "type_name (PFloat f) = ''float''"
| "type_name (PStr s) = ''str''"
| "type_name (PList xs) = ''list''"
| "type_name (PDict kvs) = ''dict''"
| "type_name (PObject t) = t"

text \<open>
  Exceptions are values. Each constructor is a subclass of Python's \<^verbatim>\<open>Exception\<close>
  and carries the text that \<^verbatim>\<open>str(e)\<close> gives; \<open>OtherError\<close> stands for every other
  subclass a library call may raise (connection errors, \<^verbatim>\<open>OSError\<close>, SDK errors).
\<close>

datatype exn =
    TypeError string
  | EnvironmentError string
  | AttributeError string
  | KeyError string
  | HTTPError string
  | JSONDecodeError string
  | OtherError string

fun str :: "exn \<Rightarrow> string" where
  "str (TypeError m) = m"
| "str (EnvironmentError m) = m"
| "str (AttributeError m) = m"
| "str (KeyError m) = m"
| "str (HTTPError m) = m"
| "str (JSONDecodeError m) = m"
| "str (OtherError m) = m"

definition quoted :: "string \<Rightarrow> string" where
  "quoted s = CHR 0x27 # s @ [CHR 0x27]"

section \<open>The outside world\<close>

text \<open>
  Every call that leaves the process (the S3 client, \<^verbatim>\<open>requests\<close>, the local file
  system) is a field of the runtime: a function from the arguments and the state of
  the world \<open>'w\<close> to an outcome (an exception or a value) and the next state of the
  world. The library functions \<^verbatim>\<open>json.dumps\<close> and \<^verbatim>\<open>json.loads\<close>, the process
  environment and the host name are fields too. Each call made is appended to the
  trace, so that "no I/O" is "the trace did not grow".
\<close>

record boto3_client =
  aws_access_key_id :: string
  aws_secret_access_key :: string
  region_name :: string

record response =
  status_code :: int
  http_error_msg :: string
  json :: "exn + pyval"

type_synonym headers = "(string \<times> string option) list"
type_synonym params = "(string \<times> string) list"

datatype io_call =
    S3_download_file boto3_client string string string
  | S3_upload_file boto3_client string string string pyval
  | S3_put_object boto3_client string string string string
  | S3_get_object boto3_client string string
  | S3_head_object boto3_client string string
  | Requests_get string headers params
  | Requests_put string headers pyval
  | Open_r string
  | Open_w string pyval
  | Open_rb string
  | Open_wb string pyval

record 'w runtime =
  environ :: "string \<Rightarrow> string option"
  gethostname :: string
  json_dumps :: "pyval \<Rightarrow> exn + string"
  json_loads :: "string \<Rightarrow> string + pyval"
  boto3_download_file :: "boto3_client \<Rightarrow> string \<Rightarrow> string \<Rightarrow> string \<Rightarrow> 'w \<Rightarrow> (exn + unit) \<times> 'w"
  boto3_upload_file :: "boto3_client \<Rightarrow> string \<Rightarrow> string \<Rightarrow> string \<Rightarrow> pyval \<Rightarrow> 'w \<Rightarrow> (exn + unit) \<times> 'w"
  boto3_put_object :: "boto3_client \<Rightarrow> string \<Rightarrow> string \<Rightarrow> string \<Rightarrow> string \<Rightarrow> 'w \<Rightarrow> (exn + unit) \<times> 'w"
  boto3_get_object :: "boto3_client \<Rightarrow> string \<Rightarrow> string \<Rightarrow> 'w \<Rightarrow> (exn + string) \<times> 'w"
  boto3_head_object :: "boto3_client \<Rightarrow> string \<Rightarrow> string \<Rightarrow> 'w \<Rightarrow> (exn + unit) \<times> 'w"
  requests_get :: "string \<Rightarrow> headers \<Rightarrow> params \<Rightarrow> 'w \<Rightarrow> (exn + response) \<times> 'w"
  requests_put :: "string \<Rightarrow> headers \<Rightarrow> pyval \<Rightarrow> 'w \<Rightarrow> (exn + response) \<times> 'w"
  file_read :: "string \<Rightarrow> 'w \<Rightarrow> (exn + string) \<times> 'w"
  file_write :: "string \<Rightarrow> pyval \<Rightarrow> 'w \<Rightarrow> (exn + unit) \<times> 'w"
  file_read_bytes :: "string \<Rightarrow> 'w \<Rightarrow> (exn + nat list) \<times> 'w"
  file_write_bytes :: "string \<Rightarrow> pyval \<Rightarrow> 'w \<Rightarrow> (exn + unit) \<times> 'w"

record 'w state =
  world :: 'w
  trace :: "io_call list"

type_synonym ('w, 'a) py = "'w state \<Rightarrow> (exn + 'a) \<times> 'w state"

definition ret :: "'a \<Rightarrow> ('w, 'a) py" where
  "ret x = (\<lambda>st. (Inr x, st))"

definition raise :: "exn \<Rightarrow> ('w, 'a) py" where
  "raise e = (\<lambda>st. (Inl e, st))"

definition lift :: "exn + 'a \<Rightarrow> ('w, 'a) py" where
  "lift r = (\<lambda>st. (r, st))"

definition bind :: "('w, 'a) py \<Rightarrow> ('a \<Rightarrow> ('w, 'b) py) \<Rightarrow> ('w, 'b) py" where
  "bind m f = (\<lambda>st. case m st of (Inl e, st') \<Rightarrow> (Inl e, st') | (Inr x, st') \<Rightarrow> f x st')"

text \<open>\<^verbatim>\<open>try: m  except Exception as e: h e\<close>: every exception of the model is caught.\<close>

definition try_except :: "('w, 'a) py \<Rightarrow> (exn \<Rightarrow> ('w, 'a) py) \<Rightarrow> ('w, 'a) py" where
  "try_except m h = (\<lambda>st. case m st of (Inl e, st') \<Rightarrow> h e st' | (Inr x, st') \<Rightarrow> (Inr x, st'))"

text \<open>\<^verbatim>\<open>try: m  except json.JSONDecodeError as e: h e\<close>: other exceptions pass through.\<close>

definition try_except_JSONDecodeError ::
  "('w, 'a) py \<Rightarrow> (exn \<Rightarrow> ('w, 'a) py) \<Rightarrow> ('w, 'a) py" where
  "try_except_JSONDecodeError m h =
     (\<lambda>st. case m st of
        (Inl (JSONDecodeError msg), st') \<Rightarrow> h (JSONDecodeError msg) st'
      | (Inl e, st') \<Rightarrow> (Inl e, st')
      | (Inr x, st') \<Rightarrow> (Inr x, st'))"

text \<open>One call to the outside world: run it on the world and record it in the trace.\<close>

definition io :: "io_call \<Rightarrow> ('w \<Rightarrow> (exn + 'a) \<times> 'w) \<Rightarrow> ('w, 'a) py" where
  "io c f = (\<lambda>st. case f (world st) of (r, w) \<Rightarrow> (r, \<lparr>world = w, trace = trace st @ [c]\<rparr>))"

text \<open>
  \<^verbatim>\<open>json.loads(data)\<close>: a \<^verbatim>\<open>str\<close> is parsed by the library, which raises
  \<^verbatim>\<open>JSONDecodeError\<close> on malformed text; any other argument is a \<^verbatim>\<open>TypeError\<close>.
\<close>

definition py_json_loads :: "'w runtime \<Rightarrow> pyval \<Rightarrow> exn + pyval" where
  "py_json_loads rt data =
     (case data of
        PStr s \<Rightarrow> (case json_loads rt s of Inl msg \<Rightarrow> Inl (JSONDecodeError msg) | Inr v \<Rightarrow> Inr v)
      | _ \<Rightarrow> Inl (TypeError (''the JSON object must be str, bytes or bytearray, not '' @ type_name data)))"

text \<open>\<^verbatim>\<open>json.dumps(data)\<close>, its result a Python \<^verbatim>\<open>str\<close>.\<close>

definition py_json_dumps :: "'w runtime \<Rightarrow> pyval \<Rightarrow> exn + pyval" where
  "py_json_dumps rt data = (case json_dumps rt data of Inl e \<Rightarrow> Inl e | Inr s \<Rightarrow> Inr (PStr s))"

text \<open>
  \<^verbatim>\<open>obj[key]\<close> for a string key, as \<^verbatim>\<open>response.json()["data"]\<close> needs it: a
  mapping is looked up (\<^verbatim>\<open>KeyError\<close> when the key is absent), anything else is a
  \<^verbatim>\<open>TypeError\<close>.
\<close>

fun getitem :: "pyval \<Rightarrow> string \<Rightarrow> exn + pyval" where
  "getitem (PDict kvs) key =
     (case map_of kvs (PStr key) of Some v \<Rightarrow> Inr v | None \<Rightarrow> Inl (KeyError (quoted key)))"
| "getitem (PList xs) key = Inl (TypeError ''list indices must be integers or slices, not str'')"
| "getitem (PStr s) key = Inl (TypeError (''string indices must be integers, not '' @ quoted ''str''))"
| "getitem v key = Inl (TypeError (quoted (type_name v) @ '' object is not subscriptable''))"

text \<open>\<^verbatim>\<open>s.rstrip(c)\<close> for a single character \<open>c\<close>.\<close>

definition rstrip :: "char \<Rightarrow> string \<Rightarrow> string" where
  "rstrip c s = rev (dropWhile (\<lambda>x. x = c) (rev s))"

section \<open>The object-store adapter: \<^verbatim>\<open>class S3Manager\<close>\<close>

record S3Manager =
  s3_client :: boto3_client

text \<open>\<^verbatim>\<open>S3Manager.__init__\<close>; building the client makes no request.\<close>

definition S3Manager_init :: "string \<Rightarrow> string \<Rightarrow> string \<Rightarrow> S3Manager" where
  "S3Manager_init aws_access_key aws_secret_key region =
     \<lparr>s3_client = \<lparr>aws_access_key_id = aws_access_key,
                    aws_secret_access_key = aws_secret_key,
                    region_name = region\<rparr>\<rparr>"

definition S3Manager_download_file ::
  "'w runtime \<Rightarrow> S3Manager \<Rightarrow> string \<Rightarrow> string \<Rightarrow> string \<Rightarrow> ('w, string) py" where
  "S3Manager_download_file rt self bucket_name s3_file_path local_file_path =
     try_except
       (bind (io (S3_download_file (s3_client self) bucket_name s3_file_path local_file_path)
                 (boto3_download_file rt (s3_client self) bucket_name s3_file_path local_file_path))
          (\<lambda>_. ret ''''))
       (\<lambda>e. ret (''[AWS Download Error] '' @ str e))"

definition S3Manager_upload_file ::
  "'w runtime \<Rightarrow> S3Manager \<Rightarrow> string \<Rightarrow> string \<Rightarrow> string \<Rightarrow> pyval \<Rightarrow> ('w, string) py" where
  "S3Manager_upload_file rt self bucket_name local_file_path s3_file_path extra_args =
     try_except
       (bind (io (S3_upload_file (s3_client self) local_file_path bucket_name s3_file_path extra_args)
                 (boto3_upload_file rt (s3_client self) local_file_path bucket_name s3_file_path extra_args))
          (\<lambda>_. ret ''''))
       (\<lambda>e. ret (''[AWS Upload Error] '' @ str e))"

text \<open>
  \<^verbatim>\<open>content.encode(encoding)\<close> is evaluated before the request is made: a value that
  is not a \<^verbatim>\<open>str\<close> has no \<^verbatim>\<open>encode\<close> and the request is never sent.
\<close>

definition encode :: "pyval \<Rightarrow> exn + string" where
  "encode content =
     (case content of
        PStr s \<Rightarrow> Inr s
      | _ \<Rightarrow> Inl (AttributeError (quoted (type_name content) @ '' object has no attribute ''
                                  @ quoted ''encode'')))"

definition S3Manager_put_text ::
  "'w runtime \<Rightarrow> S3Manager \<Rightarrow> string \<Rightarrow> string \<Rightarrow> pyval \<Rightarrow> string \<Rightarrow> ('w, string) py" where
  "S3Manager_put_text rt self bucket_name s3_path content content_type =
     try_except
       (bind (lift (encode content)) (\<lambda>body.
        bind (io (S3_put_object (s3_client self) bucket_name s3_path body content_type)
                 (boto3_put_object rt (s3_client self) bucket_name s3_path body content_type))
          (\<lambda>_. ret '''')))
       (\<lambda>e. ret (''[AWS Put Error] '' @ str e))"

text \<open>
  The outcome of \<open>boto3_get_object\<close> is that of the whole expression
  \<^verbatim>\<open>get_object(...)['Body'].read().decode(encoding)\<close>: the decoded text, or the
  exception any of its three steps raised.
\<close>

definition S3Manager_get_text ::
  "'w runtime \<Rightarrow> S3Manager \<Rightarrow> string \<Rightarrow> string \<Rightarrow> ('w, pyval \<times> string) py" where
  "S3Manager_get_text rt self bucket_name s3_path =
     try_except
       (bind (io (S3_get_object (s3_client self) bucket_name s3_path)
                 (boto3_get_object rt (s3_client self) bucket_name s3_path))
          (\<lambda>content. ret (PStr content, '''')))
       (\<lambda>e. ret (PNone, ''[AWS Get Error] '' @ str e))"

definition S3Manager_file_exists ::
  "'w runtime \<Rightarrow> S3Manager \<Rightarrow> string \<Rightarrow> string \<Rightarrow> ('w, bool) py" where
  "S3Manager_file_exists rt self bucket_name s3_path =
     try_except
       (bind (io (S3_head_object (s3_client self) bucket_name s3_path)
                 (boto3_head_object rt (s3_client self) bucket_name s3_path))
          (\<lambda>_. ret True))
       (\<lambda>e. ret False)"

section \<open>The remote file service adapter: \<^verbatim>\<open>class RenderFileManager\<close>\<close>

record RenderFileManager =
  base_url :: string
  headers :: headers

text \<open>
  \<^verbatim>\<open>RenderFileManager.__init__\<close>. The key is what \<^verbatim>\<open>os.getenv\<close> gave, so it may be
  \<^verbatim>\<open>None\<close>; it is stored in the header as it is.
\<close>

definition RenderFileManager_init :: "string \<Rightarrow> string option \<Rightarrow> RenderFileManager" where
  "RenderFileManager_init service_url api_key =
     \<lparr>base_url = rstrip CHR ''/'' service_url, headers = [(''X-API-Key'', api_key)]\<rparr>"

definition files_url :: "RenderFileManager \<Rightarrow> string \<Rightarrow> string" where
  "files_url self disk_path = base_url self @ ''/files/'' @ disk_path"

text \<open>\<^verbatim>\<open>response.raise_for_status()\<close>: an \<^verbatim>\<open>HTTPError\<close> for a status from 400 to 599.\<close>

definition raise_for_status :: "response \<Rightarrow> exn + unit" where
  "raise_for_status r =
     (if 400 \<le> status_code r \<and> status_code r < 600 then Inl (HTTPError (http_error_msg r))
      else Inr ())"

text \<open>\<^verbatim>\<open>response.json()["data"]\<close>.\<close>

definition json_data :: "response \<Rightarrow> exn + pyval" where
  "json_data r = (case json r of Inl e \<Rightarrow> Inl e | Inr v \<Rightarrow> getitem v ''data'')"

definition RenderFileManager_download_file ::
  "'w runtime \<Rightarrow> RenderFileManager \<Rightarrow> string \<Rightarrow> string \<Rightarrow> ('w, string) py" where
  "RenderFileManager_download_file rt self disk_path local_file_path =
     try_except
       (bind (io (Requests_get (files_url self disk_path) (headers self) [(''data_format'', ''pickle'')])
                 (requests_get rt (files_url self disk_path) (headers self) [(''data_format'', ''pickle'')]))
          (\<lambda>response.
        bind (lift (raise_for_status response)) (\<lambda>_.
        bind (lift (json_data response)) (\<lambda>content.
        bind (io (Open_wb local_file_path content) (file_write_bytes rt local_file_path content))
          (\<lambda>_. ret '''')))))
       (\<lambda>e. ret (''[Render Download Error] '' @ str e))"

definition RenderFileManager_upload_file ::
  "'w runtime \<Rightarrow> RenderFileManager \<Rightarrow> string \<Rightarrow> string \<Rightarrow> ('w, string) py" where
  "RenderFileManager_upload_file rt self local_file_path disk_path =
     try_except
       (bind (io (Open_rb local_file_path) (file_read_bytes rt local_file_path)) (\<lambda>bytes.
        bind (ret (PDict [(PStr ''data'', PList (map (\<lambda>b. PInt (int b)) bytes)),
                          (PStr ''data_format'', PStr ''pickle'')])) (\<lambda>body.
        bind (io (Requests_put (files_url self disk_path) (headers self) body)
                 (requests_put rt (files_url self disk_path) (headers self) body)) (\<lambda>response.
        bind (lift (raise_for_status response)) (\<lambda>_. ret '''')))))
       (\<lambda>e. ret (''[Render Upload Error] '' @ str e))"

definition RenderFileManager_put_object ::
  "'w runtime \<Rightarrow> RenderFileManager \<Rightarrow> string \<Rightarrow> pyval \<Rightarrow> string \<Rightarrow> ('w, string) py" where
  "RenderFileManager_put_object rt self disk_path data data_format =
     try_except
       (bind (ret (PDict [(PStr ''data'', data), (PStr ''data_format'', PStr data_format)])) (\<lambda>body.
        bind (io (Requests_put (files_url self disk_path) (headers self) body)
                 (requests_put rt (files_url self disk_path) (headers self) body)) (\<lambda>response.
        bind (lift (raise_for_status response)) (\<lambda>_. ret ''''))))
       (\<lambda>e. ret (''[Render Put Error] '' @ str e))"

definition RenderFileManager_get_object ::
  "'w runtime \<Rightarrow> RenderFileManager \<Rightarrow> string \<Rightarrow> string \<Rightarrow> ('w, pyval \<times> string) py" where
  "RenderFileManager_get_object rt self disk_path data_format =
     try_except
       (bind (io (Requests_get (files_url self disk_path) (headers self) [(''data_format'', data_format)])
                 (requests_get rt (files_url self disk_path) (headers self) [(''data_format'', data_format)]))
          (\<lambda>response.
        bind (lift (raise_for_status response)) (\<lambda>_.
        bind (lift (json_data response)) (\<lambda>data. ret (data, '''')))))
       (\<lambda>e. ret (PNone, ''[Render Get Error] '' @ str e))"

definition RenderFileManager_file_exists ::
  "'w runtime \<Rightarrow> RenderFileManager \<Rightarrow> string \<Rightarrow> ('w, bool) py" where
  "RenderFileManager_file_exists rt self disk_path =
     try_except
       (bind (io (Requests_get (files_url self disk_path) (headers self) [])
                 (requests_get rt (files_url self disk_path) (headers self) []))
          (\<lambda>response. ret (status_code response = 200)))
       (\<lambda>e. ret False)"

section \<open>The router: \<^verbatim>\<open>cloud_manager.py\<close>\<close>

text \<open>\<^verbatim>\<open>os.getenv(name)\<close> is \<open>environ rt name\<close>; \<^verbatim>\<open>name in os.environ\<close> is \<open>name \<in> dom (environ rt)\<close>.\<close>

definition get_host :: "'w runtime \<Rightarrow> string" where
  "get_host rt =
     (if environ rt ''AWS_LAMBDA_FUNCTION_NAME'' \<noteq> None then ''Amazon''
      else if environ rt ''RENDER'' = Some ''true'' then ''Render''
      else gethostname rt)"

definition initialize_amazon :: "'w runtime \<Rightarrow> exn + S3Manager \<times> string" where
  "initialize_amazon rt =
     (let access_key = environ rt ''AWS_WATCHDOG_ACCESS_KEY'';
          secret_key = environ rt ''AWS_WATCHDOG_SECRET_KEY'';
          bucket = environ rt ''AWS_WATCHDOG_BUCKET''
      in if access_key = None \<or> secret_key = None \<or> bucket = None
         then Inl (EnvironmentError ''One or more Environment Variables not available'')
         else Inr (S3Manager_init (the access_key) (the secret_key) ''us-west-2'', the bucket))"

definition BASE_URL :: string where
  "BASE_URL = ''https://file-manager-vist.onrender.com''"

definition initialize_render :: "'w runtime \<Rightarrow> RenderFileManager" where
  "initialize_render rt =
     (let API_KEY = environ rt ''RENDER_FILE_API_KEY''
      in RenderFileManager_init BASE_URL API_KEY)"

definition unsupported_format :: string where
  "unsupported_format = ''Unsupported data_format. Only text and json are supported.''"

text \<open>
  The conversion step shared by the three writers: \<^verbatim>\<open>json.dumps\<close> for \<^verbatim>\<open>'json'\<close>,
  a \<^verbatim>\<open>TypeError\<close> for anything that is not \<^verbatim>\<open>'text'\<close>, the data unchanged otherwise.
\<close>

definition convert_for_write :: "'w runtime \<Rightarrow> pyval \<Rightarrow> string \<Rightarrow> ('w, pyval) py" where
  "convert_for_write rt data data_format =
     (if data_format = ''json'' then lift (py_json_dumps rt data)
      else if data_format \<noteq> ''text'' then raise (TypeError unsupported_format)
      else ret data)"

definition write_to_amazon :: "'w runtime \<Rightarrow> string \<Rightarrow> pyval \<Rightarrow> string \<Rightarrow> ('w, string) py" where
  "write_to_amazon rt file_name data data_format =
     bind (lift (initialize_amazon rt)) (\<lambda>(s3_manager, bucket).
     bind (convert_for_write rt data data_format) (\<lambda>data.
     S3Manager_put_text rt s3_manager bucket file_name data ''text/plain''))"

definition write_to_render :: "'w runtime \<Rightarrow> string \<Rightarrow> pyval \<Rightarrow> string \<Rightarrow> ('w, string) py" where
  "write_to_render rt file_name data data_format =
     bind (ret (initialize_render rt)) (\<lambda>manager.
     bind (convert_for_write rt data data_format) (\<lambda>data.
     RenderFileManager_put_object rt manager file_name data ''text''))"

definition write_to_local :: "'w runtime \<Rightarrow> string \<Rightarrow> pyval \<Rightarrow> string \<Rightarrow> ('w, string) py" where
  "write_to_local rt file_path data data_format =
     bind (convert_for_write rt data data_format) (\<lambda>data.
     try_except
       (bind (io (Open_w file_path data) (file_write rt file_path data)) (\<lambda>_. ret ''''))
       (\<lambda>e. ret (''[Local Write Error] '' @ str e)))"

definition read_from_amazon :: "'w runtime \<Rightarrow> string \<Rightarrow> string \<Rightarrow> ('w, pyval \<times> string) py" where
  "read_from_amazon rt file_name data_format =
     bind (lift (initialize_amazon rt)) (\<lambda>(s3_manager, bucket).
     bind (S3Manager_get_text rt s3_manager bucket file_name) (\<lambda>(data, error).
     if error \<noteq> '''' then ret (PNone, error)
     else if data_format = ''json'' then
       try_except_JSONDecodeError
         (bind (lift (py_json_loads rt data)) (\<lambda>data. ret (data, '''')))
         (\<lambda>e. ret (PNone, ''[Amazon Read Error] '' @ str e))
     else if data_format \<noteq> ''text'' then ret (PNone, unsupported_format)
     else ret (data, '''')))"

definition read_from_render :: "'w runtime \<Rightarrow> string \<Rightarrow> string \<Rightarrow> ('w, pyval \<times> string) py" where
  "read_from_render rt file_name data_format =
     bind (ret (initialize_render rt)) (\<lambda>manager.
     bind (RenderFileManager_get_object rt manager file_name data_format) (\<lambda>(data, error).
     if error \<noteq> '''' then ret (PNone, error)
     else if data_format = ''json'' \<and> is_str data then
       try_except_JSONDecodeError
         (bind (lift (py_json_loads rt data)) (\<lambda>data. ret (data, '''')))
         (\<lambda>e. ret (PNone, ''[Render Read Error] '' @ str e))
     else if data_format \<noteq> ''text'' then ret (PNone, unsupported_format)
     else ret (data, '''')))"

definition read_from_local :: "'w runtime \<Rightarrow> string \<Rightarrow> string \<Rightarrow> ('w, pyval \<times> string) py" where
  "read_from_local rt file_path data_format =
     (\<lambda>st. case io (Open_r file_path) (file_read rt file_path) st of
        (Inl e, st') \<Rightarrow> (Inr (PNone, ''[Local Read Error] '' @ str e), st')
      | (Inr text, st') \<Rightarrow>
          (if data_format = ''json'' then
             try_except_JSONDecodeError
               (bind (lift (py_json_loads rt (PStr text))) (\<lambda>data. ret (data, '''')))
               (\<lambda>e. ret (PNone, ''[Local Read Error] '' @ str e))
           else if data_format \<noteq> ''text'' then ret (PNone, unsupported_format)
           else ret (PStr text, '''')) st')"

text \<open>
  The router passes \<^verbatim>\<open>(local_file_path, bucket, file_name)\<close> to a method declared as
  \<^verbatim>\<open>upload_file(self, bucket_name, local_file_path, s3_file_path, extra_args=None)\<close>;
  the arguments are bound by position, as Python binds them.
\<close>

definition upload_to_amazon :: "'w runtime \<Rightarrow> string \<Rightarrow> string \<Rightarrow> ('w, string) py" where
  "upload_to_amazon rt local_file_path file_name =
     bind (lift (initialize_amazon rt)) (\<lambda>(s3_manager, bucket).
     S3Manager_upload_file rt s3_manager local_file_path bucket file_name PNone)"

definition upload_to_render :: "'w runtime \<Rightarrow> string \<Rightarrow> string \<Rightarrow> ('w, string) py" where
  "upload_to_render rt local_file_path file_name =
     bind (ret (initialize_render rt)) (\<lambda>manager.
     RenderFileManager_upload_file rt manager local_file_path file_name)"

definition download_from_amazon :: "'w runtime \<Rightarrow> string \<Rightarrow> string \<Rightarrow> ('w, string) py" where
  "download_from_amazon rt file_name local_file_path =
     bind (lift (initialize_amazon rt)) (\<lambda>(s3_manager, bucket).
     S3Manager_download_file rt s3_manager bucket file_name local_file_path)"

definition download_from_render :: "'w runtime \<Rightarrow> string \<Rightarrow> string \<Rightarrow> ('w, string) py" where
  "download_from_render rt file_name local_file_path =
     bind (ret (initialize_render rt)) (\<lambda>manager.
     RenderFileManager_download_file rt manager file_name local_file_path)"

definition put :: "'w runtime \<Rightarrow> string \<Rightarrow> pyval \<Rightarrow> string \<Rightarrow> string \<Rightarrow> ('w, string) py" where
  "put rt file_name data host data_format =
     (if host = ''Amazon'' then write_to_amazon rt file_name data data_format
      else if host = ''Render'' then write_to_render rt file_name data data_format
      else write_to_local rt file_name data data_format)"

definition get :: "'w runtime \<Rightarrow> string \<Rightarrow> string \<Rightarrow> string \<Rightarrow> ('w, pyval \<times> string) py" where
  "get rt file_name host data_format =
     (if host = ''Amazon'' then read_from_amazon rt file_name data_format
      else if host = ''Render'' then read_from_render rt file_name data_format
      else read_from_local rt file_name data_format)"

definition upload :: "'w runtime \<Rightarrow> string \<Rightarrow> string \<Rightarrow> string \<Rightarrow> ('w, string) py" where
  "upload rt local_file_path file_name host =
     (if host = ''Amazon'' then upload_to_amazon rt local_file_path file_name
      else if host = ''Render'' then upload_to_render rt local_file_path file_name
      else ret '''')"

definition download :: "'w runtime \<Rightarrow> string \<Rightarrow> string \<Rightarrow> string \<Rightarrow> ('w, string) py" where
  "download rt file_name local_file_path host =
     (if host = ''Amazon'' then download_from_amazon rt file_name local_file_path
      else if host = ''Render'' then download_from_render rt file_name local_file_path
      else ret '''')"

section \<open>An in-memory runtime\<close>

text \<open>
  A runtime whose world is three finite stores: local files, S3 objects by bucket and
  key, and the remote service's disk by URL. It is used to run the router on concrete
  inputs. The remote service checks the API key, and, asked for \<^verbatim>\<open>data_format=json\<close>,
  it answers with the decoded document when what it stores parses as JSON. The JSON
  codec knows the documents listed in \<open>mem_documents\<close>.
\<close>

record mem =
  files :: "string \<Rightarrow> string option"
  objects :: "string \<times> string \<Rightarrow> string option"
  disk :: "string \<Rightarrow> pyval option"

definition mem_documents :: "(pyval \<times> string) list" where
  \<open>mem_documents =
     [(PDict [(PStr ''a'', PInt 1)], ''{"a": 1}''),
      (PList [PBool True, PNone], ''[true, null]''),
      (PStr ''hi'', ''"hi"'')]\<close>

definition mem_dumps :: "pyval \<Rightarrow> exn + string" where
  "mem_dumps v =
     (case map_of mem_documents v of
        Some s \<Rightarrow> Inr s
      | None \<Rightarrow> Inl (TypeError (''Object of type '' @ type_name v @ '' is not JSON serializable'')))"

definition mem_loads :: "string \<Rightarrow> string + pyval" where
  "mem_loads s =
     (case map_of (map (\<lambda>(v, t). (t, v)) mem_documents) s of
        Some v \<Rightarrow> Inr v
      | None \<Rightarrow> Inl ''Expecting value: line 1 column 1 (char 0)'')"

definition no_such_file :: "string \<Rightarrow> exn" where
  "no_such_file p = OtherError (''[Errno 2] No such file or directory: '' @ quoted p)"

definition mem_file_read :: "string \<Rightarrow> mem \<Rightarrow> (exn + string) \<times> mem" where
  "mem_file_read p w = (case files w p of None \<Rightarrow> (Inl (no_such_file p), w) | Some s \<Rightarrow> (Inr s, w))"

definition mem_file_write :: "string \<Rightarrow> pyval \<Rightarrow> mem \<Rightarrow> (exn + unit) \<times> mem" where
  "mem_file_write p d w =
     (case d of
        PStr s \<Rightarrow> (Inr (), w\<lparr>files := (files w)(p \<mapsto> s)\<rparr>)
      | _ \<Rightarrow> (Inl (TypeError (''write() argument must be str, not '' @ type_name d)),
              w\<lparr>files := (files w)(p \<mapsto> '''')\<rparr>))"

definition mem_file_read_bytes :: "string \<Rightarrow> mem \<Rightarrow> (exn + nat list) \<times> mem" where
  "mem_file_read_bytes p w =
     (case files w p of None \<Rightarrow> (Inl (no_such_file p), w) | Some s \<Rightarrow> (Inr (map of_char s), w))"

fun byte_values :: "pyval list \<Rightarrow> string option" where
  "byte_values [] = Some []"
| "byte_values (PInt i # vs) =
     (if 0 \<le> i \<and> i < 256
      then (case byte_values vs of None \<Rightarrow> None | Some s \<Rightarrow> Some (char_of (nat i) # s))
      else None)"
| "byte_values (v # vs) = None"

definition mem_file_write_bytes :: "string \<Rightarrow> pyval \<Rightarrow> mem \<Rightarrow> (exn + unit) \<times> mem" where
  "mem_file_write_bytes p d w =
     (case d of
        PList vs \<Rightarrow>
          (case byte_values vs of
             Some s \<Rightarrow> (Inr (), w\<lparr>files := (files w)(p \<mapsto> s)\<rparr>)
           | None \<Rightarrow> (Inl (OtherError ''bytes must be in range(0, 256)''),
                      w\<lparr>files := (files w)(p \<mapsto> '''')\<rparr>))
      | _ \<Rightarrow> (Inl (TypeError (''cannot convert '' @ quoted (type_name d) @ '' object to bytes'')),
              w\<lparr>files := (files w)(p \<mapsto> '''')\<rparr>))"

definition no_such_key :: exn where
  "no_such_key = OtherError ''An error occurred (NoSuchKey) when calling the GetObject operation''"

definition mem_put_object ::
  "boto3_client \<Rightarrow> string \<Rightarrow> string \<Rightarrow> string \<Rightarrow> string \<Rightarrow> mem \<Rightarrow> (exn + unit) \<times> mem" where
  "mem_put_object c b k body ct w = (Inr (), w\<lparr>objects := (objects w)((b, k) \<mapsto> body)\<rparr>)"

definition mem_get_object :: "boto3_client \<Rightarrow> string \<Rightarrow> string \<Rightarrow> mem \<Rightarrow> (exn + string) \<times> mem" where
  "mem_get_object c b k w =
     (case objects w (b, k) of None \<Rightarrow> (Inl no_such_key, w) | Some s \<Rightarrow> (Inr s, w))"

definition mem_head_object :: "boto3_client \<Rightarrow> string \<Rightarrow> string \<Rightarrow> mem \<Rightarrow> (exn + unit) \<times> mem" where
  "mem_head_object c b k w =
     (case objects w (b, k) of
        None \<Rightarrow> (Inl (OtherError ''An error occurred (404) when calling the HeadObject operation''), w)
      | Some s \<Rightarrow> (Inr (), w))"

definition mem_upload_file ::
  "boto3_client \<Rightarrow> string \<Rightarrow> string \<Rightarrow> string \<Rightarrow> pyval \<Rightarrow> mem \<Rightarrow> (exn + unit) \<times> mem" where
  "mem_upload_file c filename b k extra w =
     (case files w filename of
        None \<Rightarrow> (Inl (no_such_file filename), w)
      | Some s \<Rightarrow> (Inr (), w\<lparr>objects := (objects w)((b, k) \<mapsto> s)\<rparr>))"

definition mem_download_file ::
  "boto3_client \<Rightarrow> string \<Rightarrow> string \<Rightarrow> string \<Rightarrow> mem \<Rightarrow> (exn + unit) \<times> mem" where
  "mem_download_file c b k filename w =
     (case objects w (b, k) of
        None \<Rightarrow> (Inl no_such_key, w)
      | Some s \<Rightarrow> (Inr (), w\<lparr>files := (files w)(filename \<mapsto> s)\<rparr>))"

definition mem_api_key :: string where
  "mem_api_key = ''s3cr3t''"

definition mem_response :: "int \<Rightarrow> pyval \<Rightarrow> response" where
  "mem_response code body =
     \<lparr>status_code = code,
      http_error_msg = (if code = 401 then ''401 Client Error: Unauthorized''
                        else if code = 404 then ''404 Client Error: Not Found'' else ''''),
      json = Inr body\<rparr>"

definition mem_requests_put :: "string \<Rightarrow> headers \<Rightarrow> pyval \<Rightarrow> mem \<Rightarrow> (exn + response) \<times> mem" where
  "mem_requests_put url hdrs body w =
     (if map_of hdrs ''X-API-Key'' \<noteq> Some (Some mem_api_key)
      then (Inr (mem_response 401 (PDict [(PStr ''detail'', PStr ''Invalid API key'')])), w)
      else case getitem body ''data'' of
             Inl e \<Rightarrow> (Inr (mem_response 422 (PDict [(PStr ''detail'', PStr ''data required'')])), w)
           | Inr d \<Rightarrow> (Inr (mem_response 200 (PDict [(PStr ''status'', PStr ''ok'')])),
                      w\<lparr>disk := (disk w)(url \<mapsto> d)\<rparr>))"

definition mem_decode :: "params \<Rightarrow> pyval \<Rightarrow> pyval" where
  "mem_decode ps d =
     (case d of
        PStr s \<Rightarrow> (if map_of ps ''data_format'' = Some ''json''
                   then (case mem_loads s of Inr v \<Rightarrow> v | Inl e \<Rightarrow> d) else d)
      | _ \<Rightarrow> d)"

definition mem_requests_get :: "string \<Rightarrow> headers \<Rightarrow> params \<Rightarrow> mem \<Rightarrow> (exn + response) \<times> mem" where
  "mem_requests_get url hdrs ps w =
     (if map_of hdrs ''X-API-Key'' \<noteq> Some (Some mem_api_key)
      then (Inr (mem_response 401 (PDict [(PStr ''detail'', PStr ''Invalid API key'')])), w)
      else case disk w url of
             None \<Rightarrow> (Inr (mem_response 404 (PDict [(PStr ''detail'', PStr ''File not found'')])), w)
           | Some d \<Rightarrow> (Inr (mem_response 200 (PDict [(PStr ''data'', mem_decode ps d)])), w))"

definition mem_runtime :: "(string \<Rightarrow> string option) \<Rightarrow> mem runtime" where
  "mem_runtime env =
     \<lparr>environ = env,
      gethostname = ''workstation'',
      json_dumps = mem_dumps,
      json_loads = mem_loads,
      boto3_download_file = mem_download_file,
      boto3_upload_file = mem_upload_file,
      boto3_put_object = mem_put_object,
      boto3_get_object = mem_get_object,
      boto3_head_object = mem_head_object,
      requests_get = mem_requests_get,
      requests_put = mem_requests_put,
      file_read = mem_file_read,
      file_write = mem_file_write,
      file_read_bytes = mem_file_read_bytes,
      file_write_bytes = mem_file_write_bytes\<rparr>"

definition mem_empty :: "mem state" where
  "mem_empty = \<lparr>world = \<lparr>files = Map.empty, objects = Map.empty, disk = Map.empty\<rparr>, trace = []\<rparr>"

definition no_env :: "string \<Rightarrow> string option" where
  "no_env = Map.empty"

definition aws_env :: "string \<Rightarrow> string option" where
  "aws_env = [''AWS_WATCHDOG_ACCESS_KEY'' \<mapsto> ''AKIA'', ''AWS_WATCHDOG_SECRET_KEY'' \<mapsto> ''shh'',
              ''AWS_WATCHDOG_BUCKET'' \<mapsto> ''watchdog'']"

definition render_env :: "string \<Rightarrow> string option" where
  "render_env = [''RENDER_FILE_API_KEY'' \<mapsto> ''s3cr3t'']"

section \<open>Notions used by the properties\<close>

text \<open>
  The first half of \<^verbatim>\<open>get\<close>: the read of the backend that \<open>host\<close> selects, up to
  the point where the three readers start to convert. For \<^verbatim>\<open>'Amazon'\<close> it is
  \<^verbatim>\<open>_initialize_amazon\<close> and \<^verbatim>\<open>get_text\<close>, for \<^verbatim>\<open>'Render'\<close> \<^verbatim>\<open>get_object\<close>, for any
  other host the \<^verbatim>\<open>open(...).read()\<close> of \<^verbatim>\<open>_read_from_local\<close> with its handler.
\<close>

definition backend_read :: "'w runtime \<Rightarrow> string \<Rightarrow> string \<Rightarrow> string \<Rightarrow> ('w, pyval \<times> string) py" where
  "backend_read rt file_name host data_format =
     (if host = ''Amazon'' then
        bind (lift (initialize_amazon rt)) (\<lambda>(s3_manager, bucket).
          S3Manager_get_text rt s3_manager bucket file_name)
      else if host = ''Render'' then
        RenderFileManager_get_object rt (initialize_render rt) file_name data_format
      else
        try_except
          (bind (io (Open_r file_name) (file_read rt file_name)) (\<lambda>text. ret (PStr text, '''')))
          (\<lambda>e. ret (PNone, ''[Local Read Error] '' @ str e)))"

text \<open>
  The second half of \<^verbatim>\<open>get\<close>: what the three readers do with the data and the error
  that the backend read returned. They differ in the tag of the decoding error, and
  the reader for \<^verbatim>\<open>'Render'\<close> parses only a \<^verbatim>\<open>str\<close>.
\<close>

definition convert_read ::
  "'w runtime \<Rightarrow> string \<Rightarrow> string \<Rightarrow> pyval \<times> string \<Rightarrow> ('w, pyval \<times> string) py" where
  "convert_read rt host data_format =
     (\<lambda>(data, error).
       if error \<noteq> '''' then ret (PNone, error)
       else if data_format = ''json'' \<and> (host = ''Render'' \<longrightarrow> is_str data) then
         try_except_JSONDecodeError
           (bind (lift (py_json_loads rt data)) (\<lambda>data. ret (data, '''')))
           (\<lambda>e. ret (PNone, (if host = ''Amazon'' then ''[Amazon Read Error] ''
                             else if host = ''Render'' then ''[Render Read Error] ''
                             else ''[Local Read Error] '') @ str e))
       else if data_format \<noteq> ''text'' then ret (PNone, unsupported_format)
       else ret (data, ''''))"


text \<open>
  An error string carries a tag when it starts with an opening bracket that is closed
  later on, as in \<^verbatim>\<open>[AWS Get Error] ...\<close>.
\<close>

definition tagged :: "string \<Rightarrow> bool" where
  "tagged s = (case s of [] \<Rightarrow> False | c # cs \<Rightarrow> c = CHR ''['' \<and> CHR '']'' \<in> set cs)"

text \<open>The three credentials \<^verbatim>\<open>_initialize_amazon\<close> asks for.\<close>

definition amazon_credentials_missing :: "'w runtime \<Rightarrow> bool" where
  "amazon_credentials_missing rt =
     (environ rt ''AWS_WATCHDOG_ACCESS_KEY'' = None \<or>
      environ rt ''AWS_WATCHDOG_SECRET_KEY'' = None \<or>
      environ rt ''AWS_WATCHDOG_BUCKET'' = None)"

text \<open>A state of the in-memory world with one local file.\<close>

definition mem_notes :: "mem state" where
  "mem_notes =
     \<lparr>world = \<lparr>files = [''notes.txt'' \<mapsto> ''hello world''], objects = Map.empty, disk = Map.empty\<rparr>,
      trace = []\<rparr>"

definition mem_remote :: "mem state" where
  \<open>mem_remote =
     \<lparr>world = \<lparr>files = Map.empty, objects = Map.empty,
               disk = [''https://file-manager-vist.onrender.com/files/a.json'' \<mapsto> PStr ''{"a": 1}'']\<rparr>,
      trace = []\<rparr>\<close>

section \<open>Basic facts about the result monad\<close>

lemma bind_ret: "bind (ret x) f = f x"
  by (simp add: bind_def ret_def)

lemma bind_raise: "bind (raise e) f = raise e"
  by (simp add: bind_def raise_def)

lemma bind_lift_Inr: "bind (lift (Inr x)) f = f x"
  by (simp add: bind_def lift_def)

lemma bind_lift_Inl: "bind (lift (Inl e)) f = raise e"
  by (simp add: bind_def lift_def raise_def)

lemma ret_apply: "ret x st = (Inr x, st)"
  by (simp add: ret_def)

lemma raise_apply: "raise e st = (Inl e, st)"
  by (simp add: raise_def)

lemma bind_apply_Inr: "m st = (Inr x, st') \<Longrightarrow> bind m f st = f x st'"
  by (simp add: bind_def)

lemma bind_apply_Inl: "m st = (Inl e, st') \<Longrightarrow> bind m f st = (Inl e, st')"
  by (simp add: bind_def)


lemma io_trace: "trace (snd (io c f st)) = trace st @ [c]"
  by (simp add: io_def split: prod.splits)

text \<open>
  A \<^verbatim>\<open>try\<close> block that makes one call and then only computes leaves the state that
  the call left.
\<close>

lemma snd_try_io:
  assumes "\<And>x s. snd (k x s) = s"
  shows "snd (try_except (bind (io c f) k) (\<lambda>e. ret (h e)) st) = snd (io c f st)"
proof (cases "io c f st")
  case (Pair r st')
  show ?thesis
  proof (cases r)
    case (Inl e)
    with Pair show ?thesis by (simp add: try_except_def bind_def ret_def)
  next
    case (Inr x)
    obtain r2 st2 where k: "k x st' = (r2, st2)" by (cases "k x st'")
    with assms [of x st'] have "st2 = st'" by simp
    with Pair Inr k show ?thesis
      by (cases r2) (simp_all add: try_except_def bind_def ret_def)
  qed
qed

text \<open>\<^verbatim>\<open>json.loads\<close> of a \<^verbatim>\<open>str\<close> raises nothing but \<^verbatim>\<open>JSONDecodeError\<close>, which the readers catch.\<close>

lemma loads_str_caught:
  "try_except_JSONDecodeError
     (bind (lift (py_json_loads rt (PStr t))) (\<lambda>d. ret (d, ''''))) h st =
   (case json_loads rt t of
      Inl msg \<Rightarrow> h (JSONDecodeError msg) st
    | Inr v \<Rightarrow> (Inr (v, ''''), st))"
  by (simp add: try_except_JSONDecodeError_def bind_def lift_def py_json_loads_def ret_def
      split: sum.splits)

lemmas py_defs = bind_def ret_def raise_def lift_def try_except_def try_except_JSONDecodeError_def
  io_def

lemmas mem_defs = mem_runtime_def mem_empty_def mem_notes_def mem_remote_def no_env_def aws_env_def
  render_env_def mem_file_read_def mem_file_write_def mem_file_read_bytes_def
  mem_file_write_bytes_def mem_put_object_def mem_get_object_def mem_head_object_def
  mem_upload_file_def mem_download_file_def mem_requests_put_def mem_requests_get_def
  mem_response_def mem_decode_def mem_api_key_def mem_dumps_def mem_loads_def mem_documents_def
  no_such_file_def no_such_key_def

section \<open>Host resolution\<close>

text \<open>
  C7. \<^verbatim>\<open>get_host\<close> answers \<^verbatim>\<open>'Amazon'\<close> whenever \<^verbatim>\<open>AWS_LAMBDA_FUNCTION_NAME\<close> is set,
  whatever else the environment holds; failing that, \<^verbatim>\<open>'Render'\<close> when \<^verbatim>\<open>RENDER\<close> is
  \<^verbatim>\<open>'true'\<close>; failing both, the machine's host name. The checks come in this order.
\<close>

theorem get_host_order:
  "(environ rt ''AWS_LAMBDA_FUNCTION_NAME'' \<noteq> None \<longrightarrow> get_host rt = ''Amazon'') \<and>
   (environ rt ''AWS_LAMBDA_FUNCTION_NAME'' = None \<and> environ rt ''RENDER'' = Some ''true''
      \<longrightarrow> get_host rt = ''Render'') \<and>
   (environ rt ''AWS_LAMBDA_FUNCTION_NAME'' = None \<and> environ rt ''RENDER'' \<noteq> Some ''true''
      \<longrightarrow> get_host rt = gethostname rt)"
  by (simp add: get_host_def)

theorem get_host_order_witness:
  "get_host (mem_runtime [''AWS_LAMBDA_FUNCTION_NAME'' \<mapsto> ''fn'', ''RENDER'' \<mapsto> ''true'']) = ''Amazon'' \<and>
   get_host (mem_runtime [''RENDER'' \<mapsto> ''true'']) = ''Render'' \<and>
   get_host (mem_runtime [''RENDER'' \<mapsto> ''True'']) = ''workstation''"
  using get_host_order [of "mem_runtime [''AWS_LAMBDA_FUNCTION_NAME'' \<mapsto> ''fn'', ''RENDER'' \<mapsto> ''true'']"]
        get_host_order [of "mem_runtime [''RENDER'' \<mapsto> ''true'']"]
        get_host_order [of "mem_runtime [''RENDER'' \<mapsto> ''True'']"]
  by (simp add: mem_runtime_def)

section \<open>Dispatch on the host\<close>

text \<open>
  C5. A host that is neither \<^verbatim>\<open>'Amazon'\<close> nor \<^verbatim>\<open>'Render'\<close> (the empty string, an unknown
  name) sends \<^verbatim>\<open>put\<close> and \<^verbatim>\<open>get\<close> to the local file system and makes \<^verbatim>\<open>upload\<close> and
  \<^verbatim>\<open>download\<close> take their local branch; no host is rejected as unknown.
\<close>

theorem unknown_host_is_local:
  assumes "host \<noteq> ''Amazon''" and "host \<noteq> ''Render''"
  shows "put rt file_name data host data_format = write_to_local rt file_name data data_format \<and>
         get rt file_name host data_format = read_from_local rt file_name data_format \<and>
         upload rt local_file_path file_name host = ret '''' \<and>
         download rt file_name local_file_path host = ret ''''"
  using assms by (simp add: put_def get_def upload_def download_def)

theorem unknown_host_is_local_witness:
  "''Mystery'' \<noteq> ''Amazon'' \<and> ''Mystery'' \<noteq> ''Render'' \<and>
   fst (put (mem_runtime no_env) ''notes.txt'' (PStr ''hello world'') ''Mystery'' ''text'' mem_empty) = Inr '''' \<and>
   files (world (snd (put (mem_runtime no_env) ''notes.txt'' (PStr ''hello world'') ''Mystery'' ''text'' mem_empty)))
     ''notes.txt'' = Some ''hello world'' \<and>
   fst (get (mem_runtime no_env) ''notes.txt'' ''Mystery'' ''text'' mem_notes) = Inr (PStr ''hello world'', '''') \<and>
   upload (mem_runtime no_env) ''notes.txt'' ''notes.txt'' ''Mystery'' mem_notes = (Inr '''', mem_notes) \<and>
   download (mem_runtime no_env) ''notes.txt'' ''notes.txt'' ''Mystery'' mem_notes = (Inr '''', mem_notes)"
proof -
  have h1: "''Mystery'' \<noteq> ''Amazon''" and h2: "''Mystery'' \<noteq> ''Render''" by simp_all
  show ?thesis
    using h1 h2
      unknown_host_is_local [OF h1 h2, of "mem_runtime no_env" "''notes.txt''" "PStr ''hello world''"
        "''text''" "''notes.txt''"]
    by (simp add: write_to_local_def read_from_local_def convert_for_write_def py_defs mem_defs)
qed

text \<open>
  C6. With a host that is neither \<^verbatim>\<open>'Amazon'\<close> nor \<^verbatim>\<open>'Render'\<close>, \<^verbatim>\<open>upload\<close> and
  \<^verbatim>\<open>download\<close> return the empty error string at once: no call is made and the world,
  the local files included, is as it was.
\<close>

theorem local_transfer_is_noop:
  assumes "host \<noteq> ''Amazon''" and "host \<noteq> ''Render''"
  shows "upload rt local_file_path file_name host st = (Inr '''', st) \<and>
         download rt file_name local_file_path host st = (Inr '''', st)"
  using assms by (simp add: upload_def download_def ret_def)

theorem local_transfer_is_noop_witness:
  "'''' \<noteq> ''Amazon'' \<and> '''' \<noteq> ''Render'' \<and>
   upload (mem_runtime no_env) ''report.bin'' ''report.bin'' '''' mem_notes = (Inr '''', mem_notes) \<and>
   download (mem_runtime no_env) ''report.bin'' ''report.bin'' '''' mem_notes = (Inr '''', mem_notes)"
proof -
  have h1: "'''' \<noteq> ''Amazon''" and h2: "'''' \<noteq> ''Render''" by simp_all
  show ?thesis
    using h1 h2
      local_transfer_is_noop [OF h1 h2, of "mem_runtime no_env" "''report.bin''" "''report.bin''" mem_notes]
    by simp
qed

section \<open>Existence checks\<close>

text \<open>
  C8. \<^verbatim>\<open>file_exists\<close> of either adapter always returns a boolean and never raises,
  whatever the backend call does. For the object store it is true exactly when
  \<^verbatim>\<open>head_object\<close> returns and false exactly when it raises. For the remote service it
  is true exactly when the bare \<^verbatim>\<open>GET\<close> of the key's URL returns a response of status
  200, and false when the request raises.
\<close>

theorem file_exists_total:
  "(\<exists>b st'. S3Manager_file_exists rt self bucket_name s3_path st = (Inr b, st')) \<and>
   (\<exists>b st'. RenderFileManager_file_exists rt manager disk_path st = (Inr b, st')) \<and>
   (fst (S3Manager_file_exists rt self bucket_name s3_path st) = Inr True
      \<longleftrightarrow> \<not> isl (fst (boto3_head_object rt (s3_client self) bucket_name s3_path (world st)))) \<and>
   (fst (S3Manager_file_exists rt self bucket_name s3_path st) = Inr False
      \<longleftrightarrow> isl (fst (boto3_head_object rt (s3_client self) bucket_name s3_path (world st)))) \<and>
   (fst (RenderFileManager_file_exists rt manager disk_path st) = Inr True
      \<longleftrightarrow> (\<exists>r. fst (requests_get rt (files_url manager disk_path) (headers manager) [] (world st)) = Inr r
               \<and> status_code r = 200)) \<and>
   (isl (fst (requests_get rt (files_url manager disk_path) (headers manager) [] (world st)))
      \<longrightarrow> fst (RenderFileManager_file_exists rt manager disk_path st) = Inr False)"
  by (auto simp: S3Manager_file_exists_def RenderFileManager_file_exists_def try_except_def
      bind_def io_def ret_def isl_def split: prod.splits sum.splits)

theorem file_exists_total_witness:
  \<open>fst (S3Manager_file_exists (mem_runtime aws_env) (S3Manager_init ''AKIA'' ''shh'' ''us-west-2'')
         ''watchdog'' ''missing.txt'' mem_empty) = Inr False \<and>
   fst (RenderFileManager_file_exists (mem_runtime render_env) (initialize_render (mem_runtime render_env))
         ''a.json'' mem_remote) = Inr True \<and>
   fst (RenderFileManager_file_exists (mem_runtime render_env) (initialize_render (mem_runtime render_env))
         ''b.json'' mem_remote) = Inr False \<and>
   fst (RenderFileManager_file_exists (mem_runtime no_env) (initialize_render (mem_runtime no_env))
         ''a.json'' mem_remote) = Inr False\<close>
proof -
  let ?s3 = "S3Manager_init ''AKIA'' ''shh'' ''us-west-2''"
  let ?m = "initialize_render (mem_runtime render_env)"
  let ?anon = "initialize_render (mem_runtime no_env)"
  have head: "isl (fst (boto3_head_object (mem_runtime aws_env) (s3_client ?s3) ''watchdog''
                ''missing.txt'' (world mem_empty)))"
    by (simp add: mem_defs)
  have a: \<open>fst (requests_get (mem_runtime render_env) (files_url ?m ''a.json'') (headers ?m) []
                (world mem_remote)) = Inr (mem_response 200 (PDict [(PStr ''data'', PStr ''{"a": 1}'')]))\<close>
    by (simp add: mem_runtime_def mem_remote_def render_env_def mem_requests_get_def mem_api_key_def
        mem_decode_def initialize_render_def RenderFileManager_init_def files_url_def rstrip_def
        BASE_URL_def)
  have b: "fst (requests_get (mem_runtime render_env) (files_url ?m ''b.json'') (headers ?m) []
                (world mem_remote)) = Inr (mem_response 404 (PDict [(PStr ''detail'', PStr ''File not found'')]))"
    by (simp add: mem_runtime_def mem_remote_def render_env_def mem_requests_get_def mem_api_key_def
        mem_decode_def initialize_render_def RenderFileManager_init_def files_url_def rstrip_def
        BASE_URL_def)
  have c: "fst (requests_get (mem_runtime no_env) (files_url ?anon ''a.json'') (headers ?anon) []
                (world mem_remote)) = Inr (mem_response 401 (PDict [(PStr ''detail'', PStr ''Invalid API key'')]))"
    by (simp add: mem_runtime_def mem_remote_def no_env_def mem_requests_get_def mem_api_key_def
        mem_decode_def initialize_render_def RenderFileManager_init_def files_url_def rstrip_def
        BASE_URL_def)
  have "fst (S3Manager_file_exists (mem_runtime aws_env) ?s3 ''watchdog'' ''missing.txt'' mem_empty) = Inr False"
    using head file_exists_total [where rt = "mem_runtime aws_env" and self = ?s3
          and bucket_name = "''watchdog''" and ?s3_path = "''missing.txt''" and st = mem_empty
          and manager = ?m and disk_path = "''a.json''"]
    by simp
  moreover have "fst (RenderFileManager_file_exists (mem_runtime render_env) ?m ''a.json'' mem_remote) = Inr True"
    using a file_exists_total [where rt = "mem_runtime render_env" and self = ?s3
          and bucket_name = "''watchdog''" and ?s3_path = "''missing.txt''" and st = mem_remote
          and manager = ?m and disk_path = "''a.json''"]
    by (auto simp add: mem_response_def)
  moreover have "fst (RenderFileManager_file_exists (mem_runtime render_env) ?m ''b.json'' mem_remote) = Inr False"
    using b file_exists_total [where rt = "mem_runtime render_env" and self = ?s3
          and bucket_name = "''watchdog''" and ?s3_path = "''missing.txt''" and st = mem_remote
          and manager = ?m and disk_path = "''b.json''"]
    by (auto simp add: mem_response_def)
  moreover have "fst (RenderFileManager_file_exists (mem_runtime no_env) ?anon ''a.json'' mem_remote) = Inr False"
    using c file_exists_total [where rt = "mem_runtime no_env" and self = ?s3
          and bucket_name = "''watchdog''" and ?s3_path = "''missing.txt''" and st = mem_remote
          and manager = ?anon and disk_path = "''a.json''"]
    by (auto simp add: mem_response_def)
  ultimately show ?thesis by simp
qed

section \<open>The two halves of a read\<close>

lemma get_split:
  "get rt file_name host data_format =
     bind (backend_read rt file_name host data_format) (convert_read rt host data_format)"
  (is "_ = ?rhs")
proof -
  consider (amazon) "host = ''Amazon''" | (render) "host \<noteq> ''Amazon''" "host = ''Render''"
    | (local) "host \<noteq> ''Amazon''" "host \<noteq> ''Render''" by blast
  then show ?thesis
  proof cases
    case amazon
    then show ?thesis
      by (cases "initialize_amazon rt")
         (simp_all add: get_def backend_read_def convert_read_def read_from_amazon_def
            bind_lift_Inl bind_lift_Inr bind_raise split_def cong: if_cong)
  next
    case render
    then show ?thesis
      by (simp add: get_def backend_read_def convert_read_def read_from_render_def bind_ret
          split_def cong: if_cong)
  next
    case local
    show ?thesis
    proof (rule ext)
      fix st
      show "get rt file_name host data_format st = ?rhs st"
      proof (cases "io (Open_r file_name) (file_read rt file_name) st")
        case (Pair r st')
        with local show ?thesis
          by (cases r)
             (simp_all add: get_def backend_read_def convert_read_def read_from_local_def
                try_except_def bind_apply_Inr bind_apply_Inl ret_apply)
      qed
    qed
  qed
qed

section \<open>Reading JSON from the remote service\<close>

text \<open>
  C10. A \<^verbatim>\<open>get\<close> with host \<^verbatim>\<open>'Render'\<close> and format \<^verbatim>\<open>'json'\<close> whose adapter call
  succeeded (empty error) parses the returned value only when it is a \<^verbatim>\<open>str\<close>
  (a malformed one gives the tagged decoding error). A value that is not a \<^verbatim>\<open>str\<close>,
  such as a mapping the service already decoded, is not returned: the answer is
  \<^verbatim>\<open>(None, 'Unsupported data_format. Only text and json are supported.')\<close>.
\<close>

theorem render_json_get_non_string:
  assumes "RenderFileManager_get_object rt (initialize_render rt) file_name ''json'' st = (Inr (v, ''''), st')"
  shows "get rt file_name ''Render'' ''json'' st =
           (case v of
              PStr s \<Rightarrow> (case json_loads rt s of
                           Inr d \<Rightarrow> (Inr (d, ''''), st')
                         | Inl msg \<Rightarrow> (Inr (PNone, ''[Render Read Error] '' @ msg), st'))
            | _ \<Rightarrow> (Inr (PNone, unsupported_format), st'))"
proof (cases v)
  case (PStr s)
  with assms show ?thesis
    by (simp add: get_split backend_read_def convert_read_def bind_apply_Inr loads_str_caught
        ret_apply split: sum.splits)
qed (use assms in \<open>simp_all add: get_split backend_read_def convert_read_def bind_apply_Inr ret_apply\<close>)

lemma mem_remote_get_object:
  "fst (RenderFileManager_get_object (mem_runtime render_env) (initialize_render (mem_runtime render_env))
       ''a.json'' ''json'' mem_remote) = Inr (PDict [(PStr ''a'', PInt 1)], '''')"
  by (simp add: RenderFileManager_get_object_def initialize_render_def RenderFileManager_init_def
      files_url_def rstrip_def BASE_URL_def raise_for_status_def json_data_def py_defs mem_defs)

theorem render_json_get_non_string_witness:
  "fst (RenderFileManager_get_object (mem_runtime render_env) (initialize_render (mem_runtime render_env))
       ''a.json'' ''json'' mem_remote) = Inr (PDict [(PStr ''a'', PInt 1)], '''') \<and>
   fst (get (mem_runtime render_env) ''a.json'' ''Render'' ''json'' mem_remote)
     = Inr (PNone, ''Unsupported data_format. Only text and json are supported.'')"
proof -
  obtain st' where h: "RenderFileManager_get_object (mem_runtime render_env)
      (initialize_render (mem_runtime render_env)) ''a.json'' ''json'' mem_remote
      = (Inr (PDict [(PStr ''a'', PInt 1)], ''''), st')"
    using mem_remote_get_object
    by (cases "RenderFileManager_get_object (mem_runtime render_env)
      (initialize_render (mem_runtime render_env)) ''a.json'' ''json'' mem_remote") simp
  from render_json_get_non_string [OF h] mem_remote_get_object show ?thesis
    by (simp add: unsupported_format_def)
qed

section \<open>What the adapters return\<close>


lemma try_block_cases:
  assumes "try_except m (\<lambda>e. ret (h e)) st = (Inr v, st')"
    and "m st = (Inr v, st') \<Longrightarrow> P v"
    and "\<And>e. P (h e)"
  shows "P v"
  using assms by (cases "m st") (auto simp: try_except_def ret_def split: sum.splits)

lemma bind_Inr_elim:
  assumes "bind m k st = (Inr v, st')"
  obtains x st1 where "m st = (Inr x, st1)" and "k x st1 = (Inr v, st')"
  using assms by (cases "m st") (auto simp: bind_def split: sum.splits)

lemma tagged_Cons: "tagged (c # cs) \<longleftrightarrow> c = CHR ''['' \<and> CHR '']'' \<in> set cs"
  by (simp add: tagged_def)

lemma S3Manager_download_file_error:
  assumes "S3Manager_download_file rt m b k p st = (Inr err, st')"
  shows "err = '''' \<or> tagged err"
  using assms unfolding S3Manager_download_file_def
  by (rule try_block_cases) (auto elim!: bind_Inr_elim simp: ret_def tagged_Cons)

lemma S3Manager_upload_file_error:
  assumes "S3Manager_upload_file rt m b p k x st = (Inr err, st')"
  shows "err = '''' \<or> tagged err"
  using assms unfolding S3Manager_upload_file_def
  by (rule try_block_cases) (auto elim!: bind_Inr_elim simp: ret_def tagged_Cons)

lemma S3Manager_put_text_error:
  assumes "S3Manager_put_text rt m b k c ct st = (Inr err, st')"
  shows "err = '''' \<or> tagged err"
  using assms unfolding S3Manager_put_text_def
  by (rule try_block_cases) (auto elim!: bind_Inr_elim simp: ret_def tagged_Cons)

lemma S3Manager_get_text_error:
  assumes "S3Manager_get_text rt m b k st = (Inr r, st')"
  shows "(snd r = '''' \<and> is_str (fst r)) \<or> (tagged (snd r) \<and> fst r = PNone)"
  using assms unfolding S3Manager_get_text_def
  by (rule try_block_cases) (auto elim!: bind_Inr_elim simp: ret_def tagged_Cons)

lemma RenderFileManager_download_file_error:
  assumes "RenderFileManager_download_file rt m k p st = (Inr err, st')"
  shows "err = '''' \<or> tagged err"
  using assms unfolding RenderFileManager_download_file_def
  by (rule try_block_cases) (auto elim!: bind_Inr_elim simp: ret_def tagged_Cons)

lemma RenderFileManager_upload_file_error:
  assumes "RenderFileManager_upload_file rt m p k st = (Inr err, st')"
  shows "err = '''' \<or> tagged err"
  using assms unfolding RenderFileManager_upload_file_def
  by (rule try_block_cases) (auto elim!: bind_Inr_elim simp: ret_def tagged_Cons)

lemma RenderFileManager_put_object_error:
  assumes "RenderFileManager_put_object rt m k d fmt st = (Inr err, st')"
  shows "err = '''' \<or> tagged err"
  using assms unfolding RenderFileManager_put_object_def
  by (rule try_block_cases) (auto elim!: bind_Inr_elim simp: ret_def tagged_Cons)

lemma RenderFileManager_get_object_error:
  assumes "RenderFileManager_get_object rt m k fmt st = (Inr r, st')"
  shows "snd r = '''' \<or> (tagged (snd r) \<and> fst r = PNone)"
  using assms unfolding RenderFileManager_get_object_def
  by (rule try_block_cases) (auto elim!: bind_Inr_elim simp: ret_def tagged_Cons)

lemma backend_read_error:
  assumes "backend_read rt f host fmt st = (Inr r, st')"
  shows "(snd r = '''' \<and> (host \<noteq> ''Render'' \<longrightarrow> is_str (fst r))) \<or> (tagged (snd r) \<and> fst r = PNone)"
proof -
  consider (amazon) "host = ''Amazon''" | (render) "host \<noteq> ''Amazon''" "host = ''Render''"
    | (local) "host \<noteq> ''Amazon''" "host \<noteq> ''Render''" by blast
  then show ?thesis
  proof cases
    case amazon
    with assms show ?thesis
      by (cases "initialize_amazon rt")
         (auto simp: backend_read_def bind_lift_Inl bind_lift_Inr raise_def
            dest: S3Manager_get_text_error)
  next
    case render
    with assms show ?thesis
      by (auto simp: backend_read_def dest: RenderFileManager_get_object_error)
  next
    case local
    with assms have "try_except
          (bind (io (Open_r f) (file_read rt f)) (\<lambda>text. ret (PStr text, '''')))
          (\<lambda>e. ret (PNone, ''[Local Read Error] '' @ str e)) st = (Inr r, st')"
      by (simp add: backend_read_def)
    then show ?thesis
      by (rule try_block_cases) (auto elim!: bind_Inr_elim simp: ret_def tagged_Cons)
  qed
qed


lemma is_str_iff: "is_str v \<longleftrightarrow> (\<exists>s. v = PStr s)"
  by (cases v) simp_all

lemma tagged_Nil: "\<not> tagged ''''"
  by (simp add: tagged_def)

lemma convert_read_result:
  assumes r: "(snd r = '''' \<and> (host \<noteq> ''Render'' \<longrightarrow> is_str (fst r))) \<or> (tagged (snd r) \<and> fst r = PNone)"
  shows "\<exists>dat err. convert_read rt host fmt r st = (Inr (dat, err), st) \<and>
           (err = '''' \<or> tagged err \<or>
            (err = unsupported_format \<and> fmt \<noteq> ''text'' \<and> (fmt = ''json'' \<longrightarrow> host = ''Render'')))"
proof (cases r)
  case (Pair data error)
  show ?thesis
  proof (cases "error = ''''")
    case False
    with Pair r show ?thesis by (simp add: convert_read_def ret_def)
  next
    case empty: True
    show ?thesis
    proof (cases "fmt = ''json'' \<and> (host = ''Render'' \<longrightarrow> is_str data)")
      case True
      with Pair r empty obtain t where t: "data = PStr t" by (auto simp: is_str_iff tagged_Nil)
      show ?thesis
      proof (cases "json_loads rt t")
        case (Inl msg)
        with Pair empty True t show ?thesis
          by (simp add: convert_read_def loads_str_caught ret_apply tagged_Cons)
      next
        case (Inr v)
        with Pair empty True t show ?thesis
          by (simp add: convert_read_def loads_str_caught)
      qed
    next
      case False
      with Pair r empty show ?thesis
        by (cases "fmt = ''text''") (auto simp: convert_read_def ret_def)
    qed
  qed
qed

lemma get_error:
  assumes "get rt f host fmt st = (Inr (dat, err), st')"
  shows "err = '''' \<or> tagged err \<or>
         (err = unsupported_format \<and> fmt \<noteq> ''text'' \<and> (fmt = ''json'' \<longrightarrow> host = ''Render''))"
proof -
  from assms [unfolded get_split] obtain r st1
    where br: "backend_read rt f host fmt st = (Inr r, st1)"
      and cv: "convert_read rt host fmt r st1 = (Inr (dat, err), st')"
    by (rule bind_Inr_elim)
  from convert_read_result [OF backend_read_error [OF br], of rt fmt st1] cv
  show ?thesis by auto
qed


lemma writer_error:
  assumes w: "bind (convert_for_write rt d fmt) k st = (Inr err, st')"
    and k: "\<And>x s s'. k x s = (Inr err, s') \<Longrightarrow> err = '''' \<or> tagged err"
  shows "err = '''' \<or> tagged err"
  using w by (rule bind_Inr_elim) (rule k)

lemma write_to_local_error:
  assumes "write_to_local rt f d fmt st = (Inr err, st')"
  shows "err = '''' \<or> tagged err"
  using assms unfolding write_to_local_def
proof (rule writer_error)
  fix x s s'
  assume "try_except (bind (io (Open_w f x) (file_write rt f x)) (\<lambda>_. ret ''''))
           (\<lambda>e. ret (''[Local Write Error] '' @ str e)) s = (Inr err, s')"
  then show "err = '''' \<or> tagged err"
    by (rule try_block_cases) (auto elim!: bind_Inr_elim simp: ret_def tagged_Cons)
qed

lemma write_to_render_error:
  assumes "write_to_render rt f d fmt st = (Inr err, st')"
  shows "err = '''' \<or> tagged err"
  using assms unfolding write_to_render_def bind_ret
  by (rule writer_error) (rule RenderFileManager_put_object_error)

lemma write_to_amazon_error:
  assumes "write_to_amazon rt f d fmt st = (Inr err, st')"
  shows "err = '''' \<or> tagged err"
proof (cases "initialize_amazon rt")
  case (Inl e)
  with assms show ?thesis by (simp add: write_to_amazon_def bind_lift_Inl raise_def)
next
  case (Inr mb)
  with assms have "bind (convert_for_write rt d fmt)
      (\<lambda>data. S3Manager_put_text rt (fst mb) (snd mb) f data ''text/plain'') st = (Inr err, st')"
    by (simp add: write_to_amazon_def bind_lift_Inr split_def)
  then show ?thesis by (rule writer_error) (rule S3Manager_put_text_error)
qed

lemma put_error:
  assumes "put rt f d host fmt st = (Inr err, st')"
  shows "err = '''' \<or> tagged err"
  using assms
  by (auto simp: put_def split: if_splits
      dest: write_to_amazon_error write_to_render_error write_to_local_error)

lemma upload_error:
  assumes "upload rt p f host st = (Inr err, st')"
  shows "err = '''' \<or> tagged err"
proof -
  consider (amazon) "host = ''Amazon''" | (render) "host \<noteq> ''Amazon''" "host = ''Render''"
    | (local) "host \<noteq> ''Amazon''" "host \<noteq> ''Render''" by blast
  then show ?thesis
  proof cases
    case amazon
    with assms show ?thesis
      by (cases "initialize_amazon rt")
         (auto simp: upload_def upload_to_amazon_def bind_lift_Inl bind_lift_Inr raise_def
            dest: S3Manager_upload_file_error)
  next
    case render
    with assms show ?thesis
      by (auto simp: upload_def upload_to_render_def bind_ret dest: RenderFileManager_upload_file_error)
  next
    case local
    with assms show ?thesis by (simp add: upload_def ret_def)
  qed
qed

lemma download_error:
  assumes "download rt f p host st = (Inr err, st')"
  shows "err = '''' \<or> tagged err"
proof -
  consider (amazon) "host = ''Amazon''" | (render) "host \<noteq> ''Amazon''" "host = ''Render''"
    | (local) "host \<noteq> ''Amazon''" "host \<noteq> ''Render''" by blast
  then show ?thesis
  proof cases
    case amazon
    with assms show ?thesis
      by (cases "initialize_amazon rt")
         (auto simp: download_def download_from_amazon_def bind_lift_Inl bind_lift_Inr raise_def
            dest: S3Manager_download_file_error)
  next
    case render
    with assms show ?thesis
      by (auto simp: download_def download_from_render_def bind_ret
          dest: RenderFileManager_download_file_error)
  next
    case local
    with assms show ?thesis by (simp add: download_def ret_def)
  qed
qed

section \<open>Error strings\<close>

text \<open>
  C9. Every error string that \<^verbatim>\<open>put\<close>, \<^verbatim>\<open>upload\<close> or \<^verbatim>\<open>download\<close> returns is empty
  or starts with a bracketed tag. So is every error string that \<^verbatim>\<open>get\<close> returns,
  with one exception: the message
  \<^verbatim>\<open>'Unsupported data_format. Only text and json are supported.'\<close>, which \<^verbatim>\<open>get\<close>
  returns without a tag when the format is not \<^verbatim>\<open>'text'\<close> (and, for \<^verbatim>\<open>'json'\<close>, only
  from the \<^verbatim>\<open>'Render'\<close> reader).
\<close>

theorem error_strings_tagged:
  "(put rt file_name data host data_format st = (Inr err, st') \<longrightarrow> err = '''' \<or> tagged err) \<and>
   (upload rt local_file_path file_name host st = (Inr err, st') \<longrightarrow> err = '''' \<or> tagged err) \<and>
   (download rt file_name local_file_path host st = (Inr err, st') \<longrightarrow> err = '''' \<or> tagged err) \<and>
   (get rt file_name host data_format st = (Inr (dat, err), st') \<longrightarrow>
      err = '''' \<or> tagged err \<or>
      (err = unsupported_format \<and> data_format \<noteq> ''text'' \<and>
       (data_format = ''json'' \<longrightarrow> host = ''Render'')))"
  by (intro conjI impI) (rule put_error upload_error download_error get_error; assumption)+

lemma mem_get_xml:
  "get (mem_runtime no_env) ''notes.txt'' ''Local'' ''xml'' mem_notes =
     (Inr (PNone, ''Unsupported data_format. Only text and json are supported.''),
      mem_notes\<lparr>trace := [Open_r ''notes.txt'']\<rparr>)"
  by (simp add: get_def read_from_local_def unsupported_format_def py_defs mem_defs)

theorem untagged_error_counterexample:
  "fst (get (mem_runtime no_env) ''notes.txt'' ''Local'' ''xml'' mem_notes) =
     Inr (PNone, ''Unsupported data_format. Only text and json are supported.'') \<and>
   ''Unsupported data_format. Only text and json are supported.'' \<noteq> '''' \<and>
   \<not> tagged ''Unsupported data_format. Only text and json are supported.''"
  by (simp add: mem_get_xml tagged_def)

theorem error_strings_tagged_witness:
  "fst (get (mem_runtime no_env) ''missing.txt'' ''Local'' ''text'' mem_notes) =
     Inr (PNone, ''[Local Read Error] [Errno 2] No such file or directory: '' @ quoted ''missing.txt'') \<and>
   tagged (''[Local Read Error] [Errno 2] No such file or directory: '' @ quoted ''missing.txt'')"
proof -
  have g: "get (mem_runtime no_env) ''missing.txt'' ''Local'' ''text'' mem_notes =
     (Inr (PNone, ''[Local Read Error] [Errno 2] No such file or directory: '' @ quoted ''missing.txt''),
      mem_notes\<lparr>trace := [Open_r ''missing.txt'']\<rparr>)"
    by (simp add: get_def read_from_local_def py_defs mem_defs)
  from error_strings_tagged [of "mem_runtime no_env" "''missing.txt''" PNone "''Local''" "''text''"
      mem_notes "''[Local Read Error] [Errno 2] No such file or directory: '' @ quoted ''missing.txt''"
      "mem_notes\<lparr>trace := [Open_r ''missing.txt'']\<rparr>" "''missing.txt''" PNone] g
  show ?thesis by simp
qed

section \<open>Exceptions that reach the caller\<close>



lemma initialize_amazon_cases:
  obtains (missing) "amazon_credentials_missing rt"
      "initialize_amazon rt = Inl (EnvironmentError ''One or more Environment Variables not available'')"
    | (present) m b where "\<not> amazon_credentials_missing rt" "initialize_amazon rt = Inr (m, b)"
  by (cases "initialize_amazon rt")
     (auto simp: initialize_amazon_def amazon_credentials_missing_def Let_def split: if_splits)










section \<open>Formats other than text and json\<close>


lemma snd_get_object:
  "snd (RenderFileManager_get_object rt m k fmt st) =
   snd (io (Requests_get (files_url m k) (headers m) [(''data_format'', fmt)])
           (requests_get rt (files_url m k) (headers m) [(''data_format'', fmt)]) st)"
  unfolding RenderFileManager_get_object_def
  by (rule snd_try_io) (simp add: bind_def lift_def ret_def split: sum.splits)







section \<open>The JSON round trip\<close>


lemma snd_put_object:
  "snd (RenderFileManager_put_object rt m k d fmt st) =
   snd (io (Requests_put (files_url m k) (headers m)
              (PDict [(PStr ''data'', d), (PStr ''data_format'', PStr fmt)]))
           (requests_put rt (files_url m k) (headers m)
              (PDict [(PStr ''data'', d), (PStr ''data_format'', PStr fmt)])) st)"
  unfolding RenderFileManager_put_object_def bind_ret
  by (rule snd_try_io) (simp add: bind_def lift_def ret_def split: sum.splits)


lemma get_json_of_text:
  assumes loads: "json_loads rt s = Inr obj"
    and reads_back: "fst (backend_read rt k host ''json'' st1) = Inr (PStr s, '''')"
  shows "fst (get rt k host ''json'' st1) = Inr (obj, '''')"
proof -
  obtain st2 where "backend_read rt k host ''json'' st1 = (Inr (PStr s, ''''), st2)"
    using reads_back by (cases "backend_read rt k host ''json'' st1") simp
  then show ?thesis
    using loads by (simp add: get_split convert_read_def bind_apply_Inr loads_str_caught)
qed




text \<open>On the in-memory runtime the local round trip needs no assumption about the read.\<close>

lemma mem_codec: "mem_dumps obj = Inr s \<Longrightarrow> mem_loads s = Inr obj"
  by (auto simp: mem_dumps_def mem_loads_def mem_documents_def split: if_splits)

lemma mem_local_round_trip:
  assumes host: "host \<noteq> ''Amazon''" "host \<noteq> ''Render''"
    and dumps: "mem_dumps obj = Inr s"
    and written: "put (mem_runtime env) k obj host ''json'' st = (Inr '''', st1)"
  shows "fst (get (mem_runtime env) k host ''json'' st1) = Inr (obj, '''')"
proof -
  from host dumps written have st1: "files (world st1) k = Some s"
    by (auto simp: put_def write_to_local_def convert_for_write_def py_json_dumps_def py_defs
        mem_runtime_def mem_file_write_def)
  from dumps have "json_loads (mem_runtime env) s = Inr obj"
    by (simp add: mem_runtime_def mem_codec)
  moreover from host st1
  have "fst (backend_read (mem_runtime env) k host ''json'' st1) = Inr (PStr s, '''')"
    by (simp add: backend_read_def py_defs mem_runtime_def mem_file_read_def)
  ultimately show ?thesis by (rule get_json_of_text)
qed

section \<open>Missing credentials\<close>

lemma snd_get: "snd (get rt f host fmt st) = snd (backend_read rt f host fmt st)"
proof (cases "backend_read rt f host fmt st")
  case (Pair r st1)
  show ?thesis
  proof (cases r)
    case (Inl e)
    with Pair show ?thesis by (simp add: get_split bind_apply_Inl)
  next
    case (Inr x)
    with Pair have br: "backend_read rt f host fmt st = (Inr x, st1)" by simp
    from convert_read_result [OF backend_read_error [OF br], of rt fmt st1]
    obtain v where "convert_read rt host fmt x st1 = (Inr v, st1)" by auto
    with br show ?thesis by (simp add: get_split bind_apply_Inr)
  qed
qed

lemma render_url: "files_url (initialize_render rt) f = BASE_URL @ ''/files/'' @ f"
  by (simp add: files_url_def initialize_render_def RenderFileManager_init_def rstrip_def BASE_URL_def)

lemma render_headers: "headers (initialize_render rt) = [(''X-API-Key'', environ rt ''RENDER_FILE_API_KEY'')]"
  by (simp add: initialize_render_def RenderFileManager_init_def)

lemma amazon_missing_credentials_abort:
  assumes "amazon_credentials_missing rt"
  shows "put rt f d ''Amazon'' fmt st =
           (Inl (EnvironmentError ''One or more Environment Variables not available''), st)"
    and "get rt f ''Amazon'' fmt st =
           (Inl (EnvironmentError ''One or more Environment Variables not available''), st)"
    and "upload rt p f ''Amazon'' st =
           (Inl (EnvironmentError ''One or more Environment Variables not available''), st)"
    and "download rt f p ''Amazon'' st =
           (Inl (EnvironmentError ''One or more Environment Variables not available''), st)"
  using assms
  by (cases rt rule: initialize_amazon_cases;
      simp add: put_def get_def upload_def download_def write_to_amazon_def read_from_amazon_def
        upload_to_amazon_def download_from_amazon_def bind_lift_Inl raise_apply)+

lemma mem_render_put_no_key:
  "fst (put (mem_runtime no_env) ''notes.txt'' (PStr ''hello world'') ''Render'' ''text'' mem_empty) =
     Inr ''[Render Put Error] 401 Client Error: Unauthorized''"
  by (simp add: put_def write_to_render_def convert_for_write_def initialize_render_def
      RenderFileManager_init_def RenderFileManager_put_object_def files_url_def rstrip_def
      BASE_URL_def raise_for_status_def py_defs mem_defs)

text \<open>
  C1. A missing credential is to stop the operation when the adapter is built, before
  any request. The reader for \<^verbatim>\<open>'Amazon'\<close> does so (\<open>amazon_missing_credentials_abort\<close>).
  The one for \<^verbatim>\<open>'Render'\<close> does not: with \<^verbatim>\<open>RENDER_FILE_API_KEY\<close> unset the adapter is
  built with the key \<^verbatim>\<open>None\<close>, and \<^verbatim>\<open>put\<close> and \<^verbatim>\<open>get\<close> send their request with it.
\<close>

theorem render_key_not_checked:
  assumes "environ rt ''RENDER_FILE_API_KEY'' = None"
  shows "trace (snd (put rt file_name data ''Render'' ''text'' st)) =
           trace st @ [Requests_put (BASE_URL @ ''/files/'' @ file_name) [(''X-API-Key'', None)]
                         (PDict [(PStr ''data'', data), (PStr ''data_format'', PStr ''text'')])] \<and>
         trace (snd (get rt file_name ''Render'' data_format st)) =
           trace st @ [Requests_get (BASE_URL @ ''/files/'' @ file_name) [(''X-API-Key'', None)]
                         [(''data_format'', data_format)]]"
proof
  have "convert_for_write rt data ''text'' = ret data"
    by (simp add: convert_for_write_def)
  then show "trace (snd (put rt file_name data ''Render'' ''text'' st)) =
           trace st @ [Requests_put (BASE_URL @ ''/files/'' @ file_name) [(''X-API-Key'', None)]
                         (PDict [(PStr ''data'', data), (PStr ''data_format'', PStr ''text'')])]"
    using assms
    by (simp add: put_def write_to_render_def bind_ret snd_put_object io_trace render_url
        render_headers)
  show "trace (snd (get rt file_name ''Render'' data_format st)) =
           trace st @ [Requests_get (BASE_URL @ ''/files/'' @ file_name) [(''X-API-Key'', None)]
                         [(''data_format'', data_format)]]"
    using assms
    by (simp add: snd_get backend_read_def snd_get_object io_trace render_url render_headers)
qed

theorem render_key_not_checked_witness:
  "environ (mem_runtime no_env) ''RENDER_FILE_API_KEY'' = None \<and>
   trace (snd (put (mem_runtime no_env) ''notes.txt'' (PStr ''hello world'') ''Render'' ''text'' mem_empty)) =
     [Requests_put ''https://file-manager-vist.onrender.com/files/notes.txt'' [(''X-API-Key'', None)]
        (PDict [(PStr ''data'', PStr ''hello world''), (PStr ''data_format'', PStr ''text'')])] \<and>
   trace (snd (get (mem_runtime no_env) ''notes.txt'' ''Render'' ''text'' mem_empty)) =
     [Requests_get ''https://file-manager-vist.onrender.com/files/notes.txt'' [(''X-API-Key'', None)]
        [(''data_format'', ''text'')]]"
proof -
  have h: "environ (mem_runtime no_env) ''RENDER_FILE_API_KEY'' = None"
    by (simp add: mem_runtime_def no_env_def)
  from h render_key_not_checked [OF h, of "''notes.txt''" "PStr ''hello world''" mem_empty "''text''"]
  show ?thesis by (simp add: BASE_URL_def mem_empty_def)
qed

end
